theory Spec2Isabelle
  imports Complex_Main
begin

section \<open>String primitives of the host language\<close>

text \<open>
  The diagnostics engine (\<open>NetworkEngine\<close>, with the types of \<open>types.ts\<close>) is
  TypeScript. The string methods it calls on its inputs are written out here over
  \<^typ>\<open>string\<close>: \<open>startsWith\<close>, \<open>includes\<close>, \<open>split\<close> with a one-character
  separator and \<open>join\<close>. \<open>toUpperCase\<close> depends on the Unicode tables of the
  runtime and is a parameter of the environment below.
\<close>

definition startsWith :: "string \<Rightarrow> string \<Rightarrow> bool" where
  "startsWith s p = (take (length p) s = p)"

fun includes_str :: "string \<Rightarrow> string \<Rightarrow> bool" where
  "includes_str [] p = (p = [])"
| "includes_str (c # cs) p = (startsWith (c # cs) p \<or> includes_str cs p)"

fun split_str :: "char \<Rightarrow> string \<Rightarrow> string list" where
  "split_str sep [] = [[]]"
| "split_str sep (c # cs) =
     (if c = sep then [] # split_str sep cs
      else (case split_str sep cs of
              [] \<Rightarrow> [[c]]
            | p # ps \<Rightarrow> (c # p) # ps))"

fun join_str :: "string \<Rightarrow> string list \<Rightarrow> string" where
  "join_str sep [] = []"
| "join_str sep [x] = x"
| "join_str sep (x # y # ys) = x @ sep @ join_str sep (y # ys)"

text \<open>
  Text read from a socket is a JavaScript string that can hold any character, so it is
  kept as its list of UTF-16 code units. \<open>trim\<close> removes, at both ends, the code
  units of ECMAScript's \<open>WhiteSpace\<close> and \<open>LineTerminator\<close>: all of them are
  single code units.
\<close>

type_synonym jstring = "nat list"

definition js_of :: "string \<Rightarrow> jstring" where
  "js_of s = map of_char s"

definition is_space :: "nat \<Rightarrow> bool" where
  "is_space c =
     (c \<in> set [0x09, 0x0A, 0x0B, 0x0C, 0x0D, 0x20, 0xA0, 0x1680, 0x2028, 0x2029, 0x202F,
                0x205F, 0x3000, 0xFEFF]
      \<or> (0x2000 \<le> c \<and> c \<le> 0x200A))"

definition trim :: "jstring \<Rightarrow> jstring" where
  "trim s = rev (dropWhile is_space (rev (dropWhile is_space s)))"

text \<open>Header names are compared after byte-lowercasing, which touches the letters
  A to Z only.\<close>

definition lower_char :: "char \<Rightarrow> char" where
  "lower_char c =
     (let n = (of_char c :: nat) in if 65 \<le> n \<and> n \<le> 90 then char_of (n + 32) else c)"

definition toLowerCase :: "string \<Rightarrow> string" where
  "toLowerCase s = map lower_char s"

section \<open>Data model (types.ts)\<close>

text \<open>
  \<open>ToolResult.status\<close> is declared as \<open>'success' | 'error' | 'timeout'\<close>. The
  \<open>data\<close> field is \<open>unknown\<close> in the source; the payloads the engine builds are
  collected in one datatype. The time stamp is the clock reading in milliseconds (the
  source formats it as an ISO string). \<open>apiType\<close> is a string at run time, and is
  kept as one: the catalogue it comes from is a JSON file cast to the declared type.
\<close>

datatype status = StSuccess | StError | StTimeout

record cert =
  subject :: string
  issuer :: string
  valid_from :: string
  valid_to :: string

datatype payload =
    DnsData "string list"
  | PortOpen int string
  | Banner jstring
  | CertInfo bool string string string string "int option"
  | EdgeMessage string
  | Blacklist "(string \<times> string) list"
  | HeaderDump int "(string \<times> string) list"
  | Details "(string \<times> string) list"
  | Hops "string list" string int
  | Punycode string string
  | Hashes string string string string
  | Keys string string
  | WhoisRaw jstring

record ToolResult =
  status :: status
  timestamp :: int
  data :: "payload option"
  message :: "string option"
  grade :: "string option"

record EngineOptions =
  recordType :: "string option"
  prefix :: "string option"
  port :: "int option"

text \<open>A thrown \<open>Error\<close> is represented by its message.\<close>

type_synonym exn = string

section \<open>The environment the engine runs in\<close>

text \<open>
  Everything outside the engine is a parameter: the clock at the time of the call, the
  resolver, the order in which concurrent lookups complete, the peers behind sockets,
  the HTTP client (indexed by the number of the request within one call), and the
  library functions whose results the engine only forwards or tests (\<open>None\<close>
  stands for \<open>NaN\<close>; \<open>port_range_error\<close> is the message of the \<open>RangeError\<close>
  that \<open>socket.connect\<close> throws for the port it is given). A peer is the list of
  events it causes on the socket, each with the delay in milliseconds since the
  previous activity; after the last event the peer stays silent for ever. \<open>PData\<close>
  carries a chunk as \<open>toString\<close> decodes it. \<open>PSecure\<close> is the end of a TLS
  handshake: it carries the peer's certificate and the outcome of its verification
  against the trust store, \<open>None\<close> when the chain verifies and otherwise the
  verification error (such as \<open>certificate has expired\<close>). Lookups and HTTP
  requests are taken to complete at once.
\<close>

datatype rr = MX | TXT | NS | SOA | AAAA | CNAME | SRV | CAA | PTR | A

datatype peer_event =
    PConnect
  | PSecure cert "exn option"
  | PData jstring
  | PEnd
  | PError exn

record response =
  res_status :: int
  res_headers :: "(string \<times> string) list"
  res_url :: string

record env =
  now :: int
  dns_lookup :: "rr \<Rightarrow> string \<Rightarrow> exn + string list"
  dns_order :: "nat list"
  tcp_peer :: "string \<Rightarrow> int \<Rightarrow> (nat \<times> peer_event) list"
  tls_peer :: "string \<Rightarrow> (nat \<times> peer_event) list"
  http_fetch :: "nat \<Rightarrow> string \<Rightarrow> exn + response"
  parseInt :: "string \<Rightarrow> int option"
  toUpperCase :: "string \<Rightarrow> string"
  port_range_error :: "int option \<Rightarrow> exn"
  Date_parse :: "string \<Rightarrow> int option"
  domainToASCII :: "string \<Rightarrow> string"
  domainToUnicode :: "string \<Rightarrow> string"
  digest :: "string \<Rightarrow> string \<Rightarrow> string"
  randomUUID :: string
  randomBytes :: string

text \<open>Every attempt at network I/O is recorded, in the order the engine makes it.\<close>

datatype io =
    DnsQuery rr string
  | TcpConnect string int
  | TlsConnect string
  | Fetch string

section \<open>Result helpers (NetworkEngine.success, NetworkEngine.error)\<close>

definition success :: "int \<Rightarrow> payload \<Rightarrow> string option \<Rightarrow> ToolResult" where
  "success t d g =
     \<lparr>status = StSuccess, timestamp = t, data = Some d, message = None, grade = g\<rparr>"

definition error :: "int \<Rightarrow> exn \<Rightarrow> ToolResult" where
  "error t m =
     \<lparr>status = StError, timestamp = t, data = None, message = Some m, grade = None\<rparr>"

section \<open>HTTP inspection probes\<close>

text \<open>
  \<open>Headers.has\<close> compares names case-insensitively; a \<open>Headers\<close> object stores
  its names in lower case.
\<close>

definition headers_has :: "(string \<times> string) list \<Rightarrow> string \<Rightarrow> bool" where
  "headers_has hs h = (toLowerCase h \<in> set (map fst hs))"

definition required :: "string list" where
  "required = [''strict-transport-security'', ''content-security-policy'',
               ''x-frame-options'', ''x-content-type-options'']"

text \<open>The body of the \<open>forEach\<close> in \<open>gradeSecurityHeaders\<close>, on the pair
  \<open>(score, details)\<close> it mutates.\<close>

definition grade_step ::
  "response \<Rightarrow> int \<times> (string \<times> string) list \<Rightarrow> string \<Rightarrow> int \<times> (string \<times> string) list" where
  "grade_step res acc h =
     (if headers_has (res_headers res) h
      then (fst acc, snd acc @ [(h, ''PASS'')])
      else (fst acc - 20, snd acc @ [(h, ''FAIL'')]))"

definition grade_loop :: "response \<Rightarrow> int \<times> (string \<times> string) list" where
  "grade_loop res = foldl (grade_step res) (100, []) required"

definition letter :: "int \<Rightarrow> string" where
  "letter score = (if score \<ge> 80 then ''A'' else if score \<ge> 60 then ''B'' else ''F'')"

definition checkHeaders :: "env \<Rightarrow> string \<Rightarrow> io list \<times> (exn + ToolResult) option" where
  "checkHeaders e url0 =
     (let url = (if \<not> startsWith url0 ''http'' then ''https://'' @ url0 else url0)
      in ([Fetch url],
          (case http_fetch e 0 url of
             Inl ex \<Rightarrow> Some (Inl ex)
           | Inr res \<Rightarrow>
               Some (Inr (success (now e) (HeaderDump (res_status res) (res_headers res)) None)))))"

definition gradeSecurityHeaders :: "env \<Rightarrow> string \<Rightarrow> io list \<times> (exn + ToolResult) option" where
  "gradeSecurityHeaders e domain0 =
     (let domain = (if \<not> startsWith domain0 ''http'' then ''https://'' @ domain0 else domain0)
      in ([Fetch domain],
          (case http_fetch e 0 domain of
             Inl ex \<Rightarrow> Some (Inr (error (now e) ex))
           | Inr res \<Rightarrow>
               (let (score, details) = grade_loop res
                in Some (Inr (success (now e) (Details details) (Some (letter score))))))))"

definition traceRedirects :: "env \<Rightarrow> string \<Rightarrow> io list \<times> (exn + ToolResult) option" where
  "traceRedirects e url0 =
     (let url = (if \<not> startsWith url0 ''http'' then ''https://'' @ url0 else url0)
      in (case http_fetch e 0 url of
            Inl ex \<Rightarrow> ([Fetch url], Some (Inr (error (now e) ex)))
          | Inr _ \<Rightarrow>
              (case http_fetch e 1 url of
                 Inl ex \<Rightarrow> ([Fetch url, Fetch url], Some (Inr (error (now e) ex)))
               | Inr res \<Rightarrow>
                   (let hops = [url] @ (if res_url res \<noteq> url then [res_url res] else [])
                    in ([Fetch url, Fetch url],
                        Some (Inr (success (now e)
                                     (Hops hops (res_url res) (res_status res)) None)))))))"

section \<open>Sockets\<close>

text \<open>
  The connection probes are written as event handlers on one socket, closed over a
  promise. The socket is modelled by the fields the handlers touch: the promise
  (\<open>settled\<close>; only the first \<open>resolve\<close> counts), whether \<open>destroy\<close> or
  \<open>end\<close> was called, the text accumulated so far, what was written, the clock, and
  the events delivered so far.
\<close>

datatype sock_event =
    EvConnect
  | EvSecure cert bool
  | EvData jstring
  | EvEnd
  | EvError exn
  | EvTimeout
  | EvClose

record sock =
  settled :: "ToolResult option"
  destroyed :: bool
  ended :: bool
  buf :: jstring
  written :: "string list"
  clock :: int
  seen :: "sock_event list"

definition new_sock :: "int \<Rightarrow> sock" where
  "new_sock t =
     \<lparr>settled = None, destroyed = False, ended = False, buf = [], written = [],
      clock = t, seen = []\<rparr>"

definition resolve :: "ToolResult \<Rightarrow> sock \<Rightarrow> sock" where
  "resolve r s = (case settled s of None \<Rightarrow> s\<lparr>settled := Some r\<rparr> | Some _ \<Rightarrow> s)"

definition destroy :: "sock \<Rightarrow> sock" where
  "destroy s = s\<lparr>destroyed := True\<rparr>"

definition crlf :: string where
  "crlf = [CHR 0x0D, CHR 0x0A]"

definition sock_write :: "string \<Rightarrow> sock \<Rightarrow> sock" where
  "sock_write x s = s\<lparr>written := written s @ [x]\<rparr>"

fun emit :: "peer_event \<Rightarrow> sock_event" where
  "emit PConnect = EvConnect"
| "emit (PSecure c v) = EvSecure c (v = None)"
| "emit (PData d) = EvData d"
| "emit PEnd = EvEnd"
| "emit (PError m) = EvError m"

fun closes :: "peer_event \<Rightarrow> bool" where
  "closes PEnd = True"
| "closes (PError m) = True"
| "closes _ = False"

definition deliver :: "(sock_event \<Rightarrow> sock \<Rightarrow> sock) \<Rightarrow> sock_event \<Rightarrow> nat \<Rightarrow> sock \<Rightarrow> sock" where
  "deliver h ev d s = h ev (s\<lparr>clock := clock s + int d, seen := seen s @ [ev]\<rparr>)"

text \<open>
  The runtime's side of a socket. \<open>tmo\<close> is the argument of \<open>socket.setTimeout\<close>
  (\<open>None\<close> when the probe never calls it): an idle timer, re-armed by every activity,
  that emits \<open>timeout\<close> once the socket has been idle for that long. A destroyed
  socket, an \<open>error\<close> and the peer's \<open>end\<close> are followed by \<open>close\<close> and nothing
  else. When the peer has gone silent and no timer is armed, nothing more happens.
\<close>

fun drive ::
  "nat option \<Rightarrow> (sock_event \<Rightarrow> sock \<Rightarrow> sock) \<Rightarrow> (nat \<times> peer_event) list \<Rightarrow> sock \<Rightarrow> sock" where
  "drive tmo h [] s =
     (case tmo of
        None \<Rightarrow> s
      | Some t \<Rightarrow>
          (let s1 = deliver h EvTimeout t s
           in if destroyed s1 then deliver h EvClose 0 s1 else s1))"
| "drive tmo h ((d, ev) # es) s =
     (let fires = (case tmo of None \<Rightarrow> False | Some t \<Rightarrow> t \<le> d);
          s1 = (if fires then deliver h EvTimeout (the tmo) s else s);
          d1 = (if fires then d - the tmo else d)
      in if destroyed s1 then deliver h EvClose 0 s1
         else (let s2 = deliver h (emit ev) d1 s1
               in if destroyed s2 \<or> closes ev then deliver h EvClose 0 s2
                  else drive tmo h es s2))"

text \<open>
  The runtime's side of a TLS client socket. With \<open>rejectUnauthorized\<close> set, which
  is the default of \<open>tls.connect\<close>, a handshake whose certificate does not verify
  ends in an \<open>error\<close> event carrying the verification error, and \<open>secureConnect\<close>
  is not emitted; otherwise \<open>secureConnect\<close> is emitted and the socket's
  \<open>authorized\<close> tells whether the certificate verified.
\<close>

fun tls_event :: "bool \<Rightarrow> peer_event \<Rightarrow> peer_event" where
  "tls_event rejectUnauthorized (PSecure c (Some m)) =
     (if rejectUnauthorized then PError m else PSecure c (Some m))"
| "tls_event rejectUnauthorized ev = ev"

definition tls_runtime ::
  "bool \<Rightarrow> (nat \<times> peer_event) list \<Rightarrow> (nat \<times> peer_event) list" where
  "tls_runtime rejectUnauthorized es = map (\<lambda>(d, ev). (d, tls_event rejectUnauthorized ev)) es"

section \<open>Connection probes\<close>

text \<open>
  \<open>socket.connect\<close> throws a \<open>RangeError\<close> for a port that is \<open>NaN\<close> or outside
  0..65535. It does so inside the promise's executor, before anything is sent, so the
  promise is rejected and the exception reaches the \<open>catch\<close> of \<open>runTool\<close>.
\<close>

definition legal_port :: "int option \<Rightarrow> bool" where
  "legal_port p = (case p of None \<Rightarrow> False | Some n \<Rightarrow> 0 \<le> n \<and> n \<le> 65535)"

fun checkPort_on :: "string \<Rightarrow> int \<Rightarrow> sock_event \<Rightarrow> sock \<Rightarrow> sock" where
  "checkPort_on host p EvConnect s =
     resolve (success (clock s) (PortOpen p host) None) (destroy s)"
| "checkPort_on host p (EvError m) s =
     resolve (error (clock s) (''Closed or Blocked: '' @ m)) (destroy s)"
| "checkPort_on host p EvTimeout s =
     resolve (error (clock s) ''Connection Timed Out'') (destroy s)"
| "checkPort_on host p _ s = s"

text \<open>The socket of a call, once the runtime has delivered everything it will
  ever deliver.\<close>

definition checkPort_sock :: "env \<Rightarrow> string \<Rightarrow> int \<Rightarrow> sock" where
  "checkPort_sock e host p =
     drive (Some 2000) (checkPort_on host p) (tcp_peer e host p) (new_sock (now e))"

definition checkPort :: "env \<Rightarrow> string \<Rightarrow> int option \<Rightarrow> io list \<times> (exn + ToolResult) option" where
  "checkPort e host p =
     (if \<not> legal_port p then ([], Some (Inl (port_range_error e p)))
      else ([TcpConnect host (the p)],
            map_option Inr (settled (checkPort_sock e host (the p)))))"

fun grabBanner_on :: "int \<Rightarrow> sock_event \<Rightarrow> sock \<Rightarrow> sock" where
  "grabBanner_on p EvConnect s =
     (if p = 80 \<or> p = 443 then sock_write (''HEAD / HTTP/1.0'' @ crlf @ crlf) s else s)"
| "grabBanner_on p (EvData d) s = destroy (s\<lparr>buf := buf s @ d\<rparr>)"
| "grabBanner_on p EvClose s =
     resolve (success (clock s)
                (Banner (if trim (buf s) \<noteq> [] then trim (buf s)
                         else js_of ''Connected (No Banner)''))
                None) s"
| "grabBanner_on p (EvError m) s = resolve (error (clock s) m) s"
| "grabBanner_on p EvTimeout s =
     resolve (error (clock s) ''Timeout waiting for banner'') (destroy s)"
| "grabBanner_on p _ s = s"

definition grabBanner_sock :: "env \<Rightarrow> string \<Rightarrow> int \<Rightarrow> sock" where
  "grabBanner_sock e host p =
     drive (Some 3000) (grabBanner_on p) (tcp_peer e host p) (new_sock (now e))"

definition grabBanner :: "env \<Rightarrow> string \<Rightarrow> int option \<Rightarrow> io list \<times> (exn + ToolResult) option" where
  "grabBanner e host p =
     (if \<not> legal_port p then ([], Some (Inl (port_range_error e p)))
      else ([TcpConnect host (the p)],
            map_option Inr (settled (grabBanner_sock e host (the p)))))"

text \<open>\<open>checkSSL\<close> passes \<open>{ servername: host }\<close> to \<open>tls.connect\<close> and nothing
  else, so \<open>rejectUnauthorized\<close> has its default; it never calls \<open>setTimeout\<close>.\<close>

fun checkSSL_on :: "env \<Rightarrow> sock_event \<Rightarrow> sock \<Rightarrow> sock" where
  "checkSSL_on e (EvSecure c authorized) s =
     resolve
       (success (clock s)
          (CertInfo authorized (subject c) (issuer c) (valid_from c) (valid_to c)
             (map_option (\<lambda>v. (v - clock s) div 86400000) (Date_parse e (valid_to c))))
          None)
       (s\<lparr>ended := True\<rparr>)"
| "checkSSL_on e (EvError m) s = resolve (error (clock s) m) s"
| "checkSSL_on e _ s = s"

definition checkSSL_sock :: "env \<Rightarrow> string \<Rightarrow> sock" where
  "checkSSL_sock e host =
     drive None (checkSSL_on e) (tls_runtime True (tls_peer e host)) (new_sock (now e))"

definition checkSSL :: "env \<Rightarrow> string \<Rightarrow> io list \<times> (exn + ToolResult) option" where
  "checkSSL e host = ([TlsConnect host], map_option Inr (settled (checkSSL_sock e host)))"

fun simpleWhois_on :: "string \<Rightarrow> sock_event \<Rightarrow> sock \<Rightarrow> sock" where
  "simpleWhois_on domain EvConnect s = sock_write (domain @ crlf) s"
| "simpleWhois_on domain (EvData c) s = s\<lparr>buf := buf s @ c\<rparr>"
| "simpleWhois_on domain EvEnd s =
     resolve (success (clock s) (WhoisRaw (take 1500 (buf s))) None) s"
| "simpleWhois_on domain (EvError m) s = resolve (error (clock s) m) s"
| "simpleWhois_on domain EvTimeout s =
     resolve (error (clock s) ''Whois timeout'') (destroy s)"
| "simpleWhois_on domain _ s = s"

definition simpleWhois_sock :: "env \<Rightarrow> string \<Rightarrow> sock" where
  "simpleWhois_sock e domain =
     drive (Some 5000) (simpleWhois_on domain) (tcp_peer e ''whois.iana.org'' 43)
       (new_sock (now e))"

definition simpleWhois :: "env \<Rightarrow> string \<Rightarrow> io list \<times> (exn + ToolResult) option" where
  "simpleWhois e domain =
     ([TcpConnect ''whois.iana.org'' 43], map_option Inr (settled (simpleWhois_sock e domain)))"

section \<open>DNS and blacklist probes\<close>

definition rr_of :: "env \<Rightarrow> string \<Rightarrow> rr" where
  "rr_of e type =
     (let t = toUpperCase e type
      in if t = ''MX'' then MX
         else if t = ''TXT'' then TXT
         else if t = ''NS'' then NS
         else if t = ''SOA'' then SOA
         else if t = ''AAAA'' then AAAA
         else if t = ''CNAME'' then CNAME
         else if t = ''SRV'' then SRV
         else if t = ''CAA'' then CAA
         else if t = ''PTR'' then PTR
         else A)"

definition resolveDNS :: "env \<Rightarrow> string \<Rightarrow> string \<Rightarrow> io list \<times> (exn + ToolResult) option" where
  "resolveDNS e domain type =
     ([DnsQuery (rr_of e type) domain],
      Some (case dns_lookup e (rr_of e type) domain of
              Inl ex \<Rightarrow> Inl ex
            | Inr res \<Rightarrow> Inr (success (now e) (DnsData res) None)))"

text \<open>
  \<open>Promise.all\<close>: the promises complete in some order (\<open>order\<close> lists the indices
  as they complete); each result is stored at the index of its promise, and the
  aggregate is fulfilled once every slot is filled.
\<close>

definition Promise_all :: "nat list \<Rightarrow> 'a list \<Rightarrow> 'a list option" where
  "Promise_all order xs =
     (let slots = foldl (\<lambda>sl i. if i < length xs then sl[i := Some (xs ! i)] else sl)
                    (replicate (length xs) None) order
      in if None \<in> set slots then None else Some (map the slots))"

definition rbls :: "string list" where
  "rbls = [''zen.spamhaus.org'', ''b.barracudacentral.org'']"

definition rbl_lookup :: "env \<Rightarrow> string \<Rightarrow> string \<Rightarrow> string \<times> string" where
  "rbl_lookup e rv host =
     (case dns_lookup e A (rv @ ''.'' @ host) of
        Inr _ \<Rightarrow> (host, ''LISTED'')
      | Inl _ \<Rightarrow> (host, ''CLEAN''))"

definition checkBlacklist :: "env \<Rightarrow> string \<Rightarrow> io list \<times> (exn + ToolResult) option" where
  "checkBlacklist e ip =
     (let rv = join_str ''.'' (rev (split_str CHR ''.'' ip))
      in (map (\<lambda>host. DnsQuery A (rv @ ''.'' @ host)) rbls,
          map_option (\<lambda>results. Inr (success (now e) (Blacklist results) None))
            (Promise_all (dns_order e) (map (rbl_lookup e rv) rbls))))"

section \<open>The dispatcher (NetworkEngine.runTool)\<close>

text \<open>JavaScript truthiness of the optional fields, as \<open>||\<close> and \<open>?:\<close> test it.\<close>

definition truthy_str :: "string option \<Rightarrow> bool" where
  "truthy_str x = (case x of None \<Rightarrow> False | Some v \<Rightarrow> v \<noteq> [])"

definition truthy_num :: "int option \<Rightarrow> bool" where
  "truthy_num x = (case x of None \<Rightarrow> False | Some v \<Rightarrow> v \<noteq> 0)"

text \<open>
  The two expressions of the \<open>tcp\<close> and \<open>banner\<close> cases:
  \<open>options.port || (query.includes(':') ? parseInt(query.split(':')[1]) : dflt)\<close> and
  \<open>query.includes(':') ? query.split(':')[0] : query\<close>. \<open>None\<close> is \<open>NaN\<close>.
\<close>

definition port_of :: "env \<Rightarrow> EngineOptions \<Rightarrow> string \<Rightarrow> int \<Rightarrow> int option" where
  "port_of e options query dflt =
     (if truthy_num (port options) then port options
      else if includes_str query '':''
           then (case split_str CHR '':'' query of
                   _ # p # _ \<Rightarrow> parseInt e p
                 | _ \<Rightarrow> None)
           else Some dflt)"

definition host_of :: "string \<Rightarrow> string" where
  "host_of query =
     (if includes_str query '':''
      then (case split_str CHR '':'' query of h # _ \<Rightarrow> h | [] \<Rightarrow> [])
      else query)"

text \<open>The body of the \<open>try\<close> block: the log of I/O attempts, and the promise's fate
  (\<open>None\<close>: it never settles; \<open>Inl\<close>: an exception reaches the \<open>catch\<close>).\<close>

definition run_body ::
  "env \<Rightarrow> string \<Rightarrow> string \<Rightarrow> EngineOptions \<Rightarrow> io list \<times> (exn + ToolResult) option" where
  "run_body e apiType query options =
     (if query = [] \<and> apiType \<noteq> ''my-ip'' \<and> apiType \<noteq> ''crypto-uuid''
      then ([], Some (Inl ''Input query is required''))
      else if apiType = ''dns''
      then resolveDNS e query
             (if truthy_str (recordType options) then the (recordType options) else ''A'')
      else if apiType = ''dns-txt''
      then resolveDNS e
             (if truthy_str (prefix options) then the (prefix options) @ ''.'' @ query else query)
             ''TXT''
      else if apiType = ''dns-ptr''
      then ([DnsQuery PTR query],
            Some (case dns_lookup e PTR query of
                    Inl ex \<Rightarrow> Inl ex
                  | Inr res \<Rightarrow> Inr (success (now e) (DnsData res) None)))
      else if apiType = ''ping'' \<or> apiType = ''tcp''
      then checkPort e (host_of query) (port_of e options query 80)
      else if apiType = ''banner''
      then grabBanner e (host_of query) (port_of e options query 22)
      else if apiType = ''ssl'' \<or> apiType = ''tls-check''
      then checkSSL e query
      else if apiType = ''my-ip''
      then ([], Some (Inr (success (now e) (EdgeMessage ''Resolved at Edge via Headers'') None)))
      else if apiType = ''blacklist'' then checkBlacklist e query
      else if apiType = ''headers'' then checkHeaders e query
      else if apiType = ''headers-grade'' then gradeSecurityHeaders e query
      else if apiType = ''trace-redirect'' then traceRedirects e query
      else if apiType = ''punycode''
      then ([], Some (Inr (success (now e)
                             (Punycode (domainToASCII e query) (domainToUnicode e query)) None)))
      else if apiType = ''crypto-hash''
      then ([], Some (Inr (success (now e)
                             (Hashes (digest e ''md5'' query) (digest e ''sha1'' query)
                                (digest e ''sha256'' query) (digest e ''sha512'' query)) None)))
      else if apiType = ''crypto-uuid''
      then ([], Some (Inr (success (now e) (Keys (randomUUID e) (randomBytes e)) None)))
      else if apiType = ''whois'' then simpleWhois e query
      else ([], Some (Inl (''Tool implementation for '' @ apiType @ '' is missing.''))))"

text \<open>\<open>runTool\<close> is the body under its \<open>catch\<close>, which turns an exception into an
  \<open>error\<close> result. Its second component is \<open>None\<close> when the returned promise never
  settles.\<close>

definition runTool ::
  "env \<Rightarrow> string \<Rightarrow> string \<Rightarrow> EngineOptions \<Rightarrow> io list \<times> ToolResult option" where
  "runTool e apiType query options =
     (case run_body e apiType query options of
        (ios, None) \<Rightarrow> (ios, None)
      | (ios, Some (Inl ex)) \<Rightarrow> (ios, Some (error (now e) ex))
      | (ios, Some (Inr r)) \<Rightarrow> (ios, Some r))"

text \<open>The kinds that have a \<open>case\<close> in the \<open>switch\<close>.\<close>

definition routed :: "string list" where
  "routed = [''dns'', ''dns-txt'', ''dns-ptr'', ''ping'', ''tcp'', ''banner'', ''ssl'',
             ''tls-check'', ''my-ip'', ''blacklist'', ''headers'', ''headers-grade'',
             ''trace-redirect'', ''punycode'', ''crypto-hash'', ''crypto-uuid'', ''whois'']"

section \<open>Fixtures\<close>

text \<open>
  An environment in which nothing answers: every lookup and every request fails, and
  every peer is silent. The concrete inputs below are updates of it. Its library
  functions are stand-ins (\<open>toUpperCase\<close> is right on ASCII text).
\<close>

definition ascii_upper :: "string \<Rightarrow> string" where
  "ascii_upper s =
     map (\<lambda>c. let n = (of_char c :: nat)
               in if 97 \<le> n \<and> n \<le> 122 then char_of (n - 32) else c) s"

definition quiet_env :: env where
  "quiet_env =
     \<lparr>now = 1700000000000,
      dns_lookup = (\<lambda>_ _. Inl ''ENOTFOUND''),
      dns_order = [0, 1],
      tcp_peer = (\<lambda>_ _. []),
      tls_peer = (\<lambda>_. []),
      http_fetch = (\<lambda>_ _. Inl ''fetch failed''),
      parseInt = (\<lambda>_. None),
      toUpperCase = ascii_upper,
      port_range_error = (\<lambda>_. ''Port should be >= 0 and < 65536. Received type number (NaN).''),
      Date_parse = (\<lambda>_. None),
      domainToASCII = (\<lambda>x. x),
      domainToUnicode = (\<lambda>x. x),
      digest = (\<lambda>_ x. x),
      randomUUID = ''00000000-0000-4000-8000-000000000000'',
      randomBytes = ''00''\<rparr>"

definition no_options :: EngineOptions where
  "no_options = \<lparr>recordType = None, prefix = None, port = None\<rparr>"

definition timed_out :: "sock \<Rightarrow> bool" where
  "timed_out s = (EvTimeout \<in> set (seen s))"

definition three_headers :: "(string \<times> string) list" where
  "three_headers =
     [(''strict-transport-security'', ''max-age=63072000''),
      (''content-security-policy'', ''default-src https:''),
      (''x-frame-options'', ''DENY'')]"

definition hdr_env :: "(string \<times> string) list \<Rightarrow> env" where
  "hdr_env hs =
     quiet_env\<lparr>http_fetch :=
       (\<lambda>_ u. Inr \<lparr>res_status = 200, res_headers = hs, res_url = u\<rparr>)\<rparr>"

definition expired_cert :: cert where
  "expired_cert =
     \<lparr>subject = ''CN=expired.example'', issuer = ''CN=Example CA'',
      valid_from = ''Sep 13 12:26:40 2019 GMT'', valid_to = ''Sep 13 12:26:40 2020 GMT''\<rparr>"

definition expired_env :: env where
  "expired_env =
     quiet_env\<lparr>tls_peer :=
                 (\<lambda>_. [(5, PConnect),
                       (40, PSecure expired_cert (Some ''certificate has expired''))]),
               Date_parse := (\<lambda>_. Some 1600000000000)\<rparr>"

definition stalled_tls_env :: env where
  "stalled_tls_env = quiet_env\<lparr>tls_peer := (\<lambda>_. [(5, PConnect)])\<rparr>"

definition silent_service_env :: env where
  "silent_service_env = quiet_env\<lparr>tcp_peer := (\<lambda>_ _. [(10, PConnect)])\<rparr>"

definition late_banner_env :: env where
  "late_banner_env =
     quiet_env\<lparr>tcp_peer := (\<lambda>_ _. [(10, PConnect), (3500, PData (js_of ''SSH-2.0-srv''))])\<rparr>"

definition closing_service_env :: env where
  "closing_service_env = quiet_env\<lparr>tcp_peer := (\<lambda>_ _. [(10, PConnect), (20, PEnd)])\<rparr>"

definition listed_env :: env where
  "listed_env =
     quiet_env\<lparr>dns_lookup :=
                 (\<lambda>_ name. if name = ''2.0.0.127.zen.spamhaus.org'' then Inr [''127.0.0.2'']
                            else Inl ''ENOTFOUND''),
               dns_order := [1, 0]\<rparr>"

section \<open>Security-header grading\<close>

lemma foldl_grade_step:
  "foldl (grade_step res) acc hs =
     (fst acc - 20 * int (length (filter (\<lambda>h. \<not> headers_has (res_headers res) h) hs)),
      snd acc @ map (\<lambda>h. (h, if headers_has (res_headers res) h then ''PASS'' else ''FAIL'')) hs)"
  by (induction hs arbitrary: acc) (auto simp: grade_step_def)

lemma grade_loop_closed:
  "grade_loop res =
     (100 - 20 * int (length (filter (\<lambda>h. \<not> headers_has (res_headers res) h) required)),
      map (\<lambda>h. (h, if headers_has (res_headers res) h then ''PASS'' else ''FAIL'')) required)"
  by (simp add: grade_loop_def foldl_grade_step)

lemma run_body_headers_grade:
  "domain \<noteq> [] \<Longrightarrow> run_body e ''headers-grade'' domain options = gradeSecurityHeaders e domain"
  by (simp add: run_body_def)

lemma runTool_headers_grade:
  assumes "domain \<noteq> []"
    and "http_fetch e 0 (if startsWith domain ''http'' then domain else ''https://'' @ domain)
           = Inr res"
  shows "snd (runTool e ''headers-grade'' domain options) =
           Some (success (now e) (Details (snd (grade_loop res)))
                   (Some (letter (fst (grade_loop res)))))"
  using assms
  by (cases "startsWith domain ''http''")
     (simp_all add: runTool_def run_body_headers_grade gradeSecurityHeaders_def
        Let_def case_prod_beta)

lemma three_headers_has:
  "headers_has three_headers ''strict-transport-security''"
  "headers_has three_headers ''content-security-policy''"
  "headers_has three_headers ''x-frame-options''"
  "\<not> headers_has three_headers ''x-content-type-options''"
  by (simp_all add: headers_has_def three_headers_def toLowerCase_def lower_char_def)

lemma hdr_env_fetch:
  "http_fetch (hdr_env hs) n u = Inr \<lparr>res_status = 200, res_headers = hs, res_url = u\<rparr>"
  "now (hdr_env hs) = 1700000000000"
  by (simp_all add: hdr_env_def quiet_env_def)

text \<open>
  C4. Whenever the grading probe obtains a response, the score is 100 minus 20 for each
  header of the fixed list of four that the response lacks; the letter is A from 80
  up, B from 60 up and F below; the result carries the letter in its \<open>grade\<close> field
  and, as data, one PASS/FAIL entry per header in the order of the list.
\<close>

theorem gradeSecurityHeaders_rubric:
  assumes "domain \<noteq> []"
    and "http_fetch e 0 (if startsWith domain ''http'' then domain else ''https://'' @ domain)
           = Inr res"
  shows "required = [''strict-transport-security'', ''content-security-policy'',
                     ''x-frame-options'', ''x-content-type-options'']
       \<and> fst (grade_loop res) =
           100 - 20 * int (length (filter (\<lambda>h. \<not> headers_has (res_headers res) h) required))
       \<and> letter (fst (grade_loop res)) =
           (if fst (grade_loop res) \<ge> 80 then ''A''
            else if fst (grade_loop res) \<ge> 60 then ''B'' else ''F'')
       \<and> snd (runTool e ''headers-grade'' domain options) =
           Some \<lparr>status = StSuccess, timestamp = now e,
                 data = Some (Details (map (\<lambda>h. (h, if headers_has (res_headers res) h
                                                     then ''PASS'' else ''FAIL'')) required)),
                 message = None,
                 grade = Some (letter (fst (grade_loop res)))\<rparr>"
  using runTool_headers_grade [OF assms, of options]
  by (simp add: grade_loop_closed success_def letter_def required_def)

theorem gradeSecurityHeaders_rubric_witness:
  "fst (grade_loop \<lparr>res_status = 200, res_headers = three_headers,
                     res_url = ''https://example.org''\<rparr>) = 80
   \<and> snd (runTool (hdr_env three_headers) ''headers-grade'' ''example.org'' no_options) =
       Some \<lparr>status = StSuccess, timestamp = 1700000000000,
             data = Some (Details [(''strict-transport-security'', ''PASS''),
                                   (''content-security-policy'', ''PASS''),
                                   (''x-frame-options'', ''PASS''),
                                   (''x-content-type-options'', ''FAIL'')]),
             message = None, grade = Some ''A''\<rparr>"
proof -
  have h1: "''example.org'' \<noteq> []" by simp
  have h2: "http_fetch (hdr_env three_headers) 0
              (if startsWith ''example.org'' ''http'' then ''example.org''
               else ''https://'' @ ''example.org'')
            = Inr \<lparr>res_status = 200, res_headers = three_headers,
                    res_url = ''https://example.org''\<rparr>"
    by (simp add: hdr_env_fetch startsWith_def)
  show ?thesis
    using gradeSecurityHeaders_rubric [OF h1 h2, of no_options]
    by (simp add: required_def three_headers_has hdr_env_fetch letter_def)
qed

text \<open>
  C5, as the code has it. A response that lacks exactly one of the four headers scores
  80 and is graded A (not B); with all four the score is 100 and the grade A; lacking
  exactly two gives 60 and B; lacking three or more gives F.
\<close>

theorem grade_by_missing_count:
  assumes "domain \<noteq> []"
    and "http_fetch e 0 (if startsWith domain ''http'' then domain else ''https://'' @ domain)
           = Inr res"
    and "m = length (filter (\<lambda>h. \<not> headers_has (res_headers res) h) required)"
  shows "fst (grade_loop res) = 100 - 20 * int m
       \<and> map_option grade (snd (runTool e ''headers-grade'' domain options)) =
           Some (Some (if m \<le> 1 then ''A'' else if m = 2 then ''B'' else ''F''))"
  using runTool_headers_grade [OF assms(1,2), of options] assms(3)
  by (simp add: grade_loop_closed success_def letter_def)

theorem grade_by_missing_count_witness:
  "length (filter (\<lambda>h. \<not> headers_has three_headers h) required) = 1
   \<and> fst (grade_loop \<lparr>res_status = 200, res_headers = three_headers,
                       res_url = ''https://example.org''\<rparr>) = 80
   \<and> map_option grade
         (snd (runTool (hdr_env three_headers) ''headers-grade'' ''example.org'' no_options))
       = Some (Some ''A'')"
proof -
  have h1: "''example.org'' \<noteq> []" by simp
  have h2: "http_fetch (hdr_env three_headers) 0
              (if startsWith ''example.org'' ''http'' then ''example.org''
               else ''https://'' @ ''example.org'')
            = Inr \<lparr>res_status = 200, res_headers = three_headers,
                    res_url = ''https://example.org''\<rparr>"
    by (simp add: hdr_env_fetch startsWith_def)
  have h3: "(1::nat) = length (filter (\<lambda>h. \<not> headers_has (res_headers
               \<lparr>res_status = 200, res_headers = three_headers,
                  res_url = ''https://example.org''\<rparr>) h) required)"
    by (simp add: required_def three_headers_has)
  show ?thesis
    using grade_by_missing_count [OF h1 h2 h3, of no_options] h3
    by simp
qed

theorem one_missing_header_counterexample:
  "length (filter (\<lambda>h. \<not> headers_has three_headers h) required) = 1
   \<and> map_option grade
         (snd (runTool (hdr_env three_headers) ''headers-grade'' ''example.org'' no_options))
       \<noteq> Some (Some ''B'')"
proof -
  have "map_option grade
         (snd (runTool (hdr_env three_headers) ''headers-grade'' ''example.org'' no_options))
       = Some (Some ''A'')"
    by (simp add: runTool_def run_body_def gradeSecurityHeaders_def startsWith_def
          hdr_env_fetch grade_loop_closed required_def three_headers_has letter_def
          success_def)
  moreover have "length (filter (\<lambda>h. \<not> headers_has three_headers h) required) = 1"
    by (simp add: required_def three_headers_has)
  ultimately show ?thesis
    by auto
qed

section \<open>The dispatcher's guards\<close>

text \<open>
  C3, as the code has it. For a kind without a case in the switch, \<open>runTool\<close> returns
  (it does not throw) an \<open>error\<close> result and attempts no network I/O. The message
  names the kind when the target is non-empty; with an empty target the input check
  comes first and the message is the one of C9.
\<close>

theorem unrouted_kind_is_error:
  assumes "apiType \<notin> set routed"
  shows "runTool e apiType query options =
           ([], Some \<lparr>status = StError, timestamp = now e, data = None,
                       message = Some (if query = [] then ''Input query is required''
                                       else ''Tool implementation for '' @ apiType
                                              @ '' is missing.''),
                       grade = None\<rparr>)"
  using assms by (simp add: runTool_def run_body_def routed_def error_def)

theorem unrouted_kind_is_error_witness:
  "''smtp-test'' \<notin> set routed
   \<and> runTool quiet_env ''smtp-test'' ''mail.example.org'' no_options =
       ([], Some \<lparr>status = StError, timestamp = 1700000000000, data = None,
                   message = Some ''Tool implementation for smtp-test is missing.'',
                   grade = None\<rparr>)"
proof -
  have h: "''smtp-test'' \<notin> set routed" by (simp add: routed_def)
  show ?thesis
    using h unrouted_kind_is_error [OF h, of quiet_env "''mail.example.org''" no_options]
    by (simp add: quiet_env_def)
qed

theorem unrouted_kind_counterexample:
  "''health'' \<notin> set routed
   \<and> map_option message (snd (runTool quiet_env ''health'' [] no_options))
       = Some (Some ''Input query is required'')
   \<and> \<not> includes_str ''Input query is required'' ''health''"
  by (simp add: runTool_def run_body_def routed_def startsWith_def error_def)

text \<open>
  C9. For every kind other than \<open>my-ip\<close> and \<open>crypto-uuid\<close>, an empty target gives an
  \<open>error\<close> result with the message \<open>Input query is required\<close>, and the log of I/O
  attempts is empty.
\<close>

theorem empty_target_is_error:
  assumes "apiType \<noteq> ''my-ip''" and "apiType \<noteq> ''crypto-uuid''"
  shows "runTool e apiType [] options =
           ([], Some \<lparr>status = StError, timestamp = now e, data = None,
                       message = Some ''Input query is required'', grade = None\<rparr>)"
  using assms by (simp add: runTool_def run_body_def error_def)

theorem empty_target_is_error_witness:
  "''whois'' \<noteq> ''my-ip'' \<and> ''whois'' \<noteq> ''crypto-uuid''
   \<and> runTool quiet_env ''whois'' [] no_options =
       ([], Some \<lparr>status = StError, timestamp = 1700000000000, data = None,
                   message = Some ''Input query is required'', grade = None\<rparr>)"
proof -
  have h1: "''whois'' \<noteq> ''my-ip''" and h2: "''whois'' \<noteq> ''crypto-uuid''" by simp_all
  show ?thesis
    using empty_target_is_error [OF h1 h2, of quiet_env no_options]
    by (simp add: quiet_env_def)
qed

section \<open>URL normalisation of the HTTP probes\<close>

text \<open>
  C10 at \<open>httpbin.org\<close>, a host name that has no scheme and begins with the letters
  \<open>http\<close>: each of the three probes requests it as it stands, without the
  \<open>https://\<close> prefix. An input with another scheme is prefixed all the same.
\<close>

theorem scheme_test_httpbin:
  "fst (runTool quiet_env ''headers'' ''httpbin.org'' no_options) = [Fetch ''httpbin.org'']
   \<and> fst (runTool quiet_env ''headers-grade'' ''httpbin.org'' no_options)
       = [Fetch ''httpbin.org'']
   \<and> fst (runTool quiet_env ''trace-redirect'' ''httpbin.org'' no_options)
       = [Fetch ''httpbin.org'']
   \<and> fst (runTool quiet_env ''headers'' ''example.org'' no_options)
       = [Fetch ''https://example.org'']
   \<and> fst (runTool quiet_env ''headers'' ''ftp://example.org'' no_options)
       = [Fetch ''https://ftp://example.org'']"
  by (simp add: runTool_def run_body_def checkHeaders_def gradeSecurityHeaders_def
        traceRedirects_def startsWith_def quiet_env_def)

section \<open>First resolution wins\<close>

lemma settled_deliver_keep:
  assumes "\<And>x s. settled s = Some r \<Longrightarrow> settled (h x s) = Some r"
  shows "settled s = Some r \<Longrightarrow> settled (deliver h x d s) = Some r"
  using assms by (simp add: deliver_def)

lemma drive_keeps:
  assumes keep: "\<And>x s. settled s = Some r \<Longrightarrow> settled (h x s) = Some r"
  shows "settled s = Some r \<Longrightarrow> settled (drive tmo h es s) = Some r"
proof (induction es arbitrary: s)
  case Nil
  then show ?case
    by (cases tmo) (simp_all add: Let_def settled_deliver_keep [of r h, OF keep])
next
  case (Cons x es)
  obtain d ev where x: "x = (d, ev)" by (cases x)
  note k = settled_deliver_keep [of r h, OF keep]
  show ?case
    using Cons.prems Cons.IH
    by (simp add: x Let_def k)
qed

lemma checkSSL_on_keeps: "settled s = Some r \<Longrightarrow> settled (checkSSL_on e x s) = Some r"
  by (cases x) (simp_all add: resolve_def)

lemma checkPort_on_keeps: "settled s = Some r \<Longrightarrow> settled (checkPort_on host p x s) = Some r"
  by (cases x) (simp_all add: resolve_def destroy_def)

lemma grabBanner_on_keeps: "settled s = Some r \<Longrightarrow> settled (grabBanner_on p x s) = Some r"
  by (cases x) (simp_all add: resolve_def destroy_def sock_write_def)

lemma simpleWhois_on_keeps: "settled s = Some r \<Longrightarrow> settled (simpleWhois_on domain x s) = Some r"
  by (cases x) (simp_all add: resolve_def destroy_def sock_write_def)

lemma checkSSL_handshake:
  assumes "settled s = None" and "\<not> destroyed s"
  shows "settled (drive None (checkSSL_on e)
                    (map (\<lambda>d. (d, PConnect)) ds @ (d, PSecure c None) # rest) s)
       = Some (success (clock s + int (sum_list ds) + int d)
           (CertInfo True (subject c) (issuer c) (valid_from c) (valid_to c)
              (map_option (\<lambda>v. (v - (clock s + int (sum_list ds) + int d)) div 86400000)
                 (Date_parse e (valid_to c)))) None)"
  using assms
proof (induction ds arbitrary: s)
  case Nil
  let ?s2 = "deliver (checkSSL_on e) (EvSecure c True) d s"
  have s2: "settled ?s2 = Some (success (clock s + int d)
           (CertInfo True (subject c) (issuer c) (valid_from c) (valid_to c)
              (map_option (\<lambda>v. (v - (clock s + int d)) div 86400000)
                 (Date_parse e (valid_to c)))) None)"
    using Nil by (simp add: deliver_def resolve_def)
  have "\<not> destroyed ?s2" using Nil by (simp add: deliver_def resolve_def)
  then have "drive None (checkSSL_on e) ((d, PSecure c None) # rest) s
               = drive None (checkSSL_on e) rest ?s2"
    using Nil by (simp add: Let_def)
  then show ?case
    using drive_keeps [of _ "checkSSL_on e", OF checkSSL_on_keeps s2] by simp
next
  case (Cons x ds)
  let ?s2 = "deliver (checkSSL_on e) EvConnect x s"
  have a: "settled ?s2 = None" "\<not> destroyed ?s2" "clock ?s2 = clock s + int x"
    using Cons.prems by (simp_all add: deliver_def)
  have "drive None (checkSSL_on e)
          (map (\<lambda>d. (d, PConnect)) (x # ds) @ (d, PSecure c None) # rest) s
      = drive None (checkSSL_on e) (map (\<lambda>d. (d, PConnect)) ds @ (d, PSecure c None) # rest) ?s2"
    using Cons.prems a by (simp add: Let_def)
  then show ?case
    using Cons.IH [OF a(1) a(2)] by (simp add: a(3) add.assoc)
qed

lemma checkSSL_rejected:
  assumes "settled s = None" and "\<not> destroyed s"
  shows "settled (drive None (checkSSL_on e)
                    (map (\<lambda>d. (d, PConnect)) ds @ (d, PError m) # rest) s)
       = Some (error (clock s + int (sum_list ds) + int d) m)"
  using assms
proof (induction ds arbitrary: s)
  case Nil
  then show ?case
    by (simp add: Let_def deliver_def resolve_def)
next
  case (Cons x ds)
  let ?s2 = "deliver (checkSSL_on e) EvConnect x s"
  have a: "settled ?s2 = None" "\<not> destroyed ?s2" "clock ?s2 = clock s + int x"
    using Cons.prems by (simp_all add: deliver_def)
  have "drive None (checkSSL_on e) (map (\<lambda>d. (d, PConnect)) (x # ds) @ (d, PError m) # rest) s
      = drive None (checkSSL_on e) (map (\<lambda>d. (d, PConnect)) ds @ (d, PError m) # rest) ?s2"
    using Cons.prems a by (simp add: Let_def)
  then show ?case
    using Cons.IH [OF a(1) a(2)] by (simp add: a(3) add.assoc)
qed

lemma tls_runtime_connects:
  "tls_runtime r (map (\<lambda>d. (d, PConnect)) ds @ (d, ev) # rest)
     = map (\<lambda>d. (d, PConnect)) ds @ (d, tls_event r ev) # tls_runtime r rest"
  by (simp add: tls_runtime_def comp_def)

lemma run_body_ssl:
  "host \<noteq> [] \<Longrightarrow> apiType = ''ssl'' \<or> apiType = ''tls-check'' \<Longrightarrow>
   run_body e apiType host options = checkSSL e host"
  by (auto simp: run_body_def)

section \<open>TLS certificate probe\<close>

text \<open>
  When the handshake completes with a certificate that verifies, the probe returns a
  success result with \<open>valid\<close> true; where \<open>valid_to\<close> parses to the instant \<open>v\<close>, its
  \<open>days_remaining\<close> is the floor of \<open>(v - t) / 86400000\<close>, \<open>t\<close> being the clock at
  that moment.
\<close>

lemma checkSSL_verified_handshake:
  assumes "host \<noteq> []"
    and "apiType = ''ssl'' \<or> apiType = ''tls-check''"
    and "tls_peer e host = map (\<lambda>d. (d, PConnect)) ds @ (d, PSecure c None) # rest"
    and "t = now e + int (sum_list ds) + int d"
  shows "runTool e apiType host options =
           ([TlsConnect host],
            Some \<lparr>status = StSuccess, timestamp = t,
                  data = Some (CertInfo True (subject c) (issuer c) (valid_from c)
                                 (valid_to c)
                                 (map_option (\<lambda>v. \<lfloor>real_of_int (v - t) / 86400000\<rfloor>)
                                    (Date_parse e (valid_to c)))),
                  message = None, grade = None\<rparr>)"
proof -
  have fl: "\<lfloor>real_of_int (v - t) / 86400000\<rfloor> = (v - t) div 86400000" for v
    using floor_divide_of_int_eq [of "v - t" 86400000, where ?'a = real] by simp
  have "settled (checkSSL_sock e host) =
          Some (success t (CertInfo True (subject c) (issuer c) (valid_from c) (valid_to c)
                  (map_option (\<lambda>v. (v - t) div 86400000) (Date_parse e (valid_to c)))) None)"
    unfolding checkSSL_sock_def assms(3) tls_runtime_connects
    using checkSSL_handshake [of "new_sock (now e)" e ds d c "tls_runtime True rest"] assms(4)
    by (simp add: new_sock_def)
  then have "runTool e apiType host options =
           ([TlsConnect host],
            Some (success t (CertInfo True (subject c) (issuer c) (valid_from c) (valid_to c)
                  (map_option (\<lambda>v. (v - t) div 86400000) (Date_parse e (valid_to c)))) None))"
    using assms(1,2) by (simp add: runTool_def run_body_ssl checkSSL_def)
  then show ?thesis unfolding fl by (simp add: success_def)
qed

text \<open>
  When the certificate does not verify, whatever the reason, the handshake ends in an
  \<open>error\<close> event and the probe returns an \<open>error\<close> result with the verification
  error as its message: the callback that reads \<open>authorized\<close> and computes
  \<open>days_remaining\<close> does not run.
\<close>

lemma checkSSL_unverified_is_error:
  assumes "host \<noteq> []"
    and "apiType = ''ssl'' \<or> apiType = ''tls-check''"
    and "tls_peer e host = map (\<lambda>d. (d, PConnect)) ds @ (d, PSecure c (Some m)) # rest"
    and "t = now e + int (sum_list ds) + int d"
  shows "runTool e apiType host options =
           ([TlsConnect host],
            Some \<lparr>status = StError, timestamp = t, data = None, message = Some m,
                  grade = None\<rparr>)"
proof -
  have "settled (checkSSL_sock e host) = Some (error t m)"
    unfolding checkSSL_sock_def assms(3) tls_runtime_connects
    using checkSSL_rejected [of "new_sock (now e)" e ds d m "tls_runtime True rest"] assms(4)
    by (simp add: new_sock_def)
  then show ?thesis
    using assms(1,2) by (simp add: runTool_def run_body_ssl checkSSL_def error_def)
qed

text \<open>
  C7 at a host whose certificate has expired (\<open>valid_to\<close> lies before the clock): the
  handshake fails verification, and \<open>runTool\<close> returns an \<open>error\<close> result with the
  message \<open>certificate has expired\<close>, not a success with a negative
  \<open>days_remaining\<close>.
\<close>

theorem checkSSL_expired_certificate_is_error:
  "tls_peer expired_env ''expired.example''
     = [(5, PConnect), (40, PSecure expired_cert (Some ''certificate has expired''))]
   \<and> Date_parse expired_env (valid_to expired_cert) = Some 1600000000000
   \<and> (1600000000000::int) < now expired_env
   \<and> runTool expired_env ''ssl'' ''expired.example'' no_options =
       ([TlsConnect ''expired.example''],
        Some \<lparr>status = StError, timestamp = 1700000000045, data = None,
              message = Some ''certificate has expired'', grade = None\<rparr>)
   \<and> runTool expired_env ''tls-check'' ''expired.example'' no_options =
       ([TlsConnect ''expired.example''],
        Some \<lparr>status = StError, timestamp = 1700000000045, data = None,
              message = Some ''certificate has expired'', grade = None\<rparr>)"
  by (simp add: runTool_def run_body_def checkSSL_def checkSSL_sock_def tls_runtime_def
        expired_env_def quiet_env_def new_sock_def deliver_def Let_def resolve_def error_def)

text \<open>
  C1 at a peer that accepts the TCP connection and then sends nothing: \<open>checkSSL\<close>
  sets no timeout on its socket, so no event ever reaches a handler that resolves the
  promise, and \<open>runTool\<close> never returns a result.
\<close>

theorem checkSSL_stalled_peer_never_settles:
  "tls_peer stalled_tls_env ''stalled.example'' = [(5, PConnect)]
   \<and> runTool stalled_tls_env ''ssl'' ''stalled.example'' no_options
       = ([TlsConnect ''stalled.example''], None)
   \<and> runTool stalled_tls_env ''tls-check'' ''stalled.example'' no_options
       = ([TlsConnect ''stalled.example''], None)"
  by (simp add: runTool_def run_body_def checkSSL_def checkSSL_sock_def tls_runtime_def
        stalled_tls_env_def quiet_env_def new_sock_def deliver_def Let_def)

text \<open>The sibling \<open>checkPort\<close> does set a timeout: whatever the peer does first, or if
  it does nothing, the promise is resolved no later than 2000 ms after the call.\<close>

lemma checkPort_settles_in_time:
  assumes "case tcp_peer e host p of [] \<Rightarrow> True
           | (d, ev) # _ \<Rightarrow> ev = PConnect \<or> (\<exists>m. ev = PError m)"
  shows "\<exists>r. settled (checkPort_sock e host p) = Some r \<and> timestamp r \<le> now e + 2000"
proof (cases "tcp_peer e host p")
  case Nil
  then show ?thesis
    by (simp add: checkPort_sock_def new_sock_def deliver_def Let_def resolve_def
          destroy_def error_def)
next
  case (Cons x es)
  obtain d ev where x: "x = (d, ev)" by (cases x)
  from assms Cons x have ev: "ev = PConnect \<or> (\<exists>m. ev = PError m)" by simp
  show ?thesis
  proof (cases "2000 \<le> d")
    case True
    then show ?thesis
      by (simp add: checkPort_sock_def Cons x new_sock_def deliver_def Let_def resolve_def
            destroy_def error_def)
  next
    case False
    with ev show ?thesis
      by (auto simp add: checkPort_sock_def Cons x new_sock_def deliver_def Let_def
            resolve_def destroy_def error_def success_def)
  qed
qed

section \<open>Deadline expiry\<close>

lemma emit_not_timeout: "emit ev \<noteq> EvTimeout"
  by (cases ev) simp_all

lemma drive_timeout_generic:
  assumes seen_h: "\<And>x s. seen (h x s) = seen s"
      and tmo_h: "\<And>s. settled s = None \<Longrightarrow>
                    settled (h EvTimeout s) = Some (error (clock s) m) \<and> destroyed (h EvTimeout s)"
      and keep_h: "\<And>x s r. settled s = Some r \<Longrightarrow> settled (h x s) = Some r"
      and cont_h: "\<And>ev s. settled s = None \<Longrightarrow> \<not> closes ev \<Longrightarrow>
                    \<not> destroyed (h (emit ev) s) \<Longrightarrow> settled (h (emit ev) s) = None"
  shows "settled s = None \<Longrightarrow> \<not> destroyed s \<Longrightarrow> EvTimeout \<notin> set (seen s) \<Longrightarrow>
         EvTimeout \<in> set (seen (drive (Some t) h es s)) \<Longrightarrow>
         \<exists>c. settled (drive (Some t) h es s) = Some (error c m)"
proof (induction es arbitrary: s)
  case Nil
  let ?s1 = "deliver h EvTimeout t s"
  have s1: "settled ?s1 = Some (error (clock s + int t) m)" "destroyed ?s1"
    using tmo_h [of "s\<lparr>clock := clock s + int t, seen := seen s @ [EvTimeout]\<rparr>"] Nil.prems(1)
    by (simp_all add: deliver_def)
  have "settled (deliver h EvClose 0 ?s1) = Some (error (clock s + int t) m)"
    using keep_h s1(1) by (simp add: deliver_def)
  then show ?case using s1(2) by (auto simp add: Let_def)
next
  case (Cons x es)
  obtain d ev where x: "x = (d, ev)" by (cases x)
  show ?case
  proof (cases "t \<le> d")
    case True
    let ?s1 = "deliver h EvTimeout t s"
    have s1: "settled ?s1 = Some (error (clock s + int t) m)" "destroyed ?s1"
      using tmo_h [of "s\<lparr>clock := clock s + int t, seen := seen s @ [EvTimeout]\<rparr>"] Cons.prems(1)
      by (simp_all add: deliver_def)
    have "settled (deliver h EvClose 0 ?s1) = Some (error (clock s + int t) m)"
      using keep_h s1(1) by (simp add: deliver_def)
    then show ?thesis using s1(2) True by (auto simp add: x Let_def)
  next
    case False
    let ?s2 = "deliver h (emit ev) d s"
    have seen2: "seen ?s2 = seen s @ [emit ev]"
      by (simp add: deliver_def seen_h)
    show ?thesis
    proof (cases "destroyed ?s2 \<or> closes ev")
      case True
      then have "drive (Some t) h (x # es) s = deliver h EvClose 0 ?s2"
        using False Cons.prems(2) by (simp add: x Let_def)
      moreover have "seen (deliver h EvClose 0 ?s2) = seen s @ [emit ev, EvClose]"
        by (simp add: deliver_def seen_h)
      ultimately have "EvTimeout \<notin> set (seen (drive (Some t) h (x # es) s))"
        using Cons.prems(3) emit_not_timeout [of ev] by auto
      then show ?thesis using Cons.prems(4) by simp
    next
      case stay: False
      then have eq: "drive (Some t) h (x # es) s = drive (Some t) h es ?s2"
        using False Cons.prems(2) by (simp add: x Let_def)
      have "settled ?s2 = None"
        using cont_h [of "s\<lparr>clock := clock s + int d, seen := seen s @ [emit ev]\<rparr>" ev]
          stay Cons.prems(1) by (simp add: deliver_def)
      moreover have "\<not> destroyed ?s2" using stay by simp
      moreover have "EvTimeout \<notin> set (seen ?s2)"
        using seen2 Cons.prems(3) emit_not_timeout [of ev] by auto
      ultimately show ?thesis
        using Cons.IH [of ?s2] Cons.prems(4) by (simp add: eq)
    qed
  qed
qed

lemma checkPort_timed_out:
  assumes "timed_out (checkPort_sock e host p)"
  shows "\<exists>c. settled (checkPort_sock e host p) = Some (error c ''Connection Timed Out'')"
  unfolding checkPort_sock_def
proof (rule drive_timeout_generic)
  show "seen (checkPort_on host p x s) = seen s" for x s
    by (cases x) (simp_all add: resolve_def destroy_def split: option.splits)
  show "settled s = None \<Longrightarrow>
         settled (checkPort_on host p EvTimeout s) = Some (error (clock s) ''Connection Timed Out'')
         \<and> destroyed (checkPort_on host p EvTimeout s)" for s
    by (simp add: resolve_def destroy_def)
  show "settled s = Some r \<Longrightarrow> settled (checkPort_on host p x s) = Some r" for x s r
    by (rule checkPort_on_keeps)
  show "settled s = None \<Longrightarrow> \<not> closes ev \<Longrightarrow> \<not> destroyed (checkPort_on host p (emit ev) s)
        \<Longrightarrow> settled (checkPort_on host p (emit ev) s) = None" for ev s
    by (cases ev) (simp_all add: resolve_def destroy_def)
  show "settled (new_sock (now e)) = None" "\<not> destroyed (new_sock (now e))"
       "EvTimeout \<notin> set (seen (new_sock (now e)))"
    by (simp_all add: new_sock_def)
  show "EvTimeout \<in> set (seen (drive (Some 2000) (checkPort_on host p) (tcp_peer e host p)
                                (new_sock (now e))))"
    using assms by (simp add: timed_out_def checkPort_sock_def)
qed

lemma grabBanner_timed_out:
  assumes "timed_out (grabBanner_sock e host p)"
  shows "\<exists>c. settled (grabBanner_sock e host p) = Some (error c ''Timeout waiting for banner'')"
  unfolding grabBanner_sock_def
proof (rule drive_timeout_generic)
  show "seen (grabBanner_on p x s) = seen s" for x s
    by (cases x) (simp_all add: resolve_def destroy_def sock_write_def split: option.splits)
  show "settled s = None \<Longrightarrow>
         settled (grabBanner_on p EvTimeout s) = Some (error (clock s) ''Timeout waiting for banner'')
         \<and> destroyed (grabBanner_on p EvTimeout s)" for s
    by (simp add: resolve_def destroy_def)
  show "settled s = Some r \<Longrightarrow> settled (grabBanner_on p x s) = Some r" for x s r
    by (rule grabBanner_on_keeps)
  show "settled s = None \<Longrightarrow> \<not> closes ev \<Longrightarrow> \<not> destroyed (grabBanner_on p (emit ev) s)
        \<Longrightarrow> settled (grabBanner_on p (emit ev) s) = None" for ev s
    by (cases ev) (simp_all add: resolve_def destroy_def sock_write_def)
  show "settled (new_sock (now e)) = None" "\<not> destroyed (new_sock (now e))"
       "EvTimeout \<notin> set (seen (new_sock (now e)))"
    by (simp_all add: new_sock_def)
  show "EvTimeout \<in> set (seen (drive (Some 3000) (grabBanner_on p) (tcp_peer e host p)
                                (new_sock (now e))))"
    using assms by (simp add: timed_out_def grabBanner_sock_def)
qed

lemma simpleWhois_timed_out:
  assumes "timed_out (simpleWhois_sock e domain)"
  shows "\<exists>c. settled (simpleWhois_sock e domain) = Some (error c ''Whois timeout'')"
  unfolding simpleWhois_sock_def
proof (rule drive_timeout_generic)
  show "seen (simpleWhois_on domain x s) = seen s" for x s
    by (cases x) (simp_all add: resolve_def destroy_def sock_write_def split: option.splits)
  show "settled s = None \<Longrightarrow>
         settled (simpleWhois_on domain EvTimeout s) = Some (error (clock s) ''Whois timeout'')
         \<and> destroyed (simpleWhois_on domain EvTimeout s)" for s
    by (simp add: resolve_def destroy_def)
  show "settled s = Some r \<Longrightarrow> settled (simpleWhois_on domain x s) = Some r" for x s r
    by (rule simpleWhois_on_keeps)
  show "settled s = None \<Longrightarrow> \<not> closes ev \<Longrightarrow> \<not> destroyed (simpleWhois_on domain (emit ev) s)
        \<Longrightarrow> settled (simpleWhois_on domain (emit ev) s) = None" for ev s
    by (cases ev) (simp_all add: resolve_def destroy_def sock_write_def)
  show "settled (new_sock (now e)) = None" "\<not> destroyed (new_sock (now e))"
       "EvTimeout \<notin> set (seen (new_sock (now e)))"
    by (simp_all add: new_sock_def)
  show "EvTimeout \<in> set (seen (drive (Some 5000) (simpleWhois_on domain)
                                (tcp_peer e ''whois.iana.org'' 43) (new_sock (now e))))"
    using assms by (simp add: timed_out_def simpleWhois_sock_def)
qed

text \<open>No handler builds a result with status \<open>timeout\<close>.\<close>

lemma drive_status:
  assumes step: "\<And>x s. (\<forall>r. settled s = Some r \<longrightarrow> status r \<noteq> StTimeout) \<Longrightarrow>
                   (\<forall>r. settled (h x s) = Some r \<longrightarrow> status r \<noteq> StTimeout)"
  shows "(\<forall>r. settled s = Some r \<longrightarrow> status r \<noteq> StTimeout) \<Longrightarrow>
         (\<forall>r. settled (drive tmo h es s) = Some r \<longrightarrow> status r \<noteq> StTimeout)"
proof (induction es arbitrary: s)
  case Nil
  have d: "\<forall>r. settled (deliver h x n s') = Some r \<longrightarrow> status r \<noteq> StTimeout"
    if "\<forall>r. settled s' = Some r \<longrightarrow> status r \<noteq> StTimeout" for x n s'
    using step [of "s'\<lparr>clock := clock s' + int n, seen := seen s' @ [x]\<rparr>" x] that
    by (simp add: deliver_def)
  show ?case
    using d [OF Nil.prems] d [OF d [OF Nil.prems]] Nil.prems
    by (cases tmo) (simp_all add: Let_def)
next
  case (Cons x es)
  obtain d ev where x: "x = (d, ev)" by (cases x)
  have dl: "\<forall>r. settled (deliver h y n s') = Some r \<longrightarrow> status r \<noteq> StTimeout"
    if "\<forall>r. settled s' = Some r \<longrightarrow> status r \<noteq> StTimeout" for y n s'
    using step [of "s'\<lparr>clock := clock s' + int n, seen := seen s' @ [y]\<rparr>" y] that
    by (simp add: deliver_def)
  define s1 where "s1 = (if (case tmo of None \<Rightarrow> False | Some t \<Rightarrow> t \<le> d)
                         then deliver h EvTimeout (the tmo) s else s)"
  define d1 where "d1 = (if (case tmo of None \<Rightarrow> False | Some t \<Rightarrow> t \<le> d)
                         then d - the tmo else d)"
  have ok1: "\<forall>r. settled s1 = Some r \<longrightarrow> status r \<noteq> StTimeout"
    unfolding s1_def using dl [OF Cons.prems] Cons.prems by simp
  have ok2: "\<forall>r. settled (deliver h (emit ev) d1 s1) = Some r \<longrightarrow> status r \<noteq> StTimeout"
    by (rule dl [OF ok1])
  have eq: "drive tmo h (x # es) s =
          (if destroyed s1 then deliver h EvClose 0 s1
           else if destroyed (deliver h (emit ev) d1 s1) \<or> closes ev
                then deliver h EvClose 0 (deliver h (emit ev) d1 s1)
                else drive tmo h es (deliver h (emit ev) d1 s1))"
    by (simp add: x Let_def s1_def d1_def)
  show ?case
    unfolding eq
    using dl [OF ok1] dl [OF ok2] Cons.IH [OF ok2]
    by simp
qed

lemma new_sock_status: "\<forall>r. settled (new_sock t) = Some r \<longrightarrow> status r \<noteq> StTimeout"
  by (simp add: new_sock_def)

lemma checkPort_on_status:
  "(\<forall>r. settled s = Some r \<longrightarrow> status r \<noteq> StTimeout) \<Longrightarrow>
   (\<forall>r. settled (checkPort_on host p x s) = Some r \<longrightarrow> status r \<noteq> StTimeout)"
  by (cases x) (auto simp: resolve_def destroy_def success_def error_def split: option.splits)

lemma grabBanner_on_status:
  "(\<forall>r. settled s = Some r \<longrightarrow> status r \<noteq> StTimeout) \<Longrightarrow>
   (\<forall>r. settled (grabBanner_on p x s) = Some r \<longrightarrow> status r \<noteq> StTimeout)"
  by (cases x)
     (auto simp: resolve_def destroy_def sock_write_def success_def error_def
           split: option.splits)

lemma checkSSL_on_status:
  "(\<forall>r. settled s = Some r \<longrightarrow> status r \<noteq> StTimeout) \<Longrightarrow>
   (\<forall>r. settled (checkSSL_on e x s) = Some r \<longrightarrow> status r \<noteq> StTimeout)"
  by (cases x) (auto simp: resolve_def success_def error_def split: option.splits)

lemma simpleWhois_on_status:
  "(\<forall>r. settled s = Some r \<longrightarrow> status r \<noteq> StTimeout) \<Longrightarrow>
   (\<forall>r. settled (simpleWhois_on domain x s) = Some r \<longrightarrow> status r \<noteq> StTimeout)"
  by (cases x)
     (auto simp: resolve_def destroy_def sock_write_def success_def error_def
           split: option.splits)

lemma checkPort_status: "snd (checkPort e host p) = Some (Inr r) \<Longrightarrow> status r \<noteq> StTimeout"
  using drive_status [of "checkPort_on host (the p)" "new_sock (now e)" "Some 2000"
          "tcp_peer e host (the p)", OF checkPort_on_status new_sock_status]
  by (auto simp: checkPort_def checkPort_sock_def split: if_splits)

lemma grabBanner_status: "snd (grabBanner e host p) = Some (Inr r) \<Longrightarrow> status r \<noteq> StTimeout"
  using drive_status [of "grabBanner_on (the p)" "new_sock (now e)" "Some 3000"
          "tcp_peer e host (the p)", OF grabBanner_on_status new_sock_status]
  by (auto simp: grabBanner_def grabBanner_sock_def split: if_splits)

lemma checkSSL_status: "snd (checkSSL e host) = Some (Inr r) \<Longrightarrow> status r \<noteq> StTimeout"
  using drive_status [of "checkSSL_on e" "new_sock (now e)" None
          "tls_runtime True (tls_peer e host)", OF checkSSL_on_status new_sock_status]
  by (auto simp: checkSSL_def checkSSL_sock_def)

lemma simpleWhois_status: "snd (simpleWhois e domain) = Some (Inr r) \<Longrightarrow> status r \<noteq> StTimeout"
  using drive_status [of "simpleWhois_on domain" "new_sock (now e)" "Some 5000"
          "tcp_peer e ''whois.iana.org'' 43", OF simpleWhois_on_status new_sock_status]
  by (auto simp: simpleWhois_def simpleWhois_sock_def)

lemma resolveDNS_status: "snd (resolveDNS e domain type) = Some (Inr r) \<Longrightarrow> status r \<noteq> StTimeout"
  by (auto simp: resolveDNS_def success_def split: sum.splits)

lemma checkBlacklist_status: "snd (checkBlacklist e ip) = Some (Inr r) \<Longrightarrow> status r \<noteq> StTimeout"
  by (auto simp: checkBlacklist_def Let_def success_def)

lemma checkHeaders_status: "snd (checkHeaders e url) = Some (Inr r) \<Longrightarrow> status r \<noteq> StTimeout"
  by (auto simp: checkHeaders_def Let_def success_def split: sum.splits)

lemma gradeSecurityHeaders_status:
  "snd (gradeSecurityHeaders e url) = Some (Inr r) \<Longrightarrow> status r \<noteq> StTimeout"
  by (auto simp: gradeSecurityHeaders_def Let_def success_def error_def case_prod_beta
           split: sum.splits)

lemma traceRedirects_status:
  "snd (traceRedirects e url) = Some (Inr r) \<Longrightarrow> status r \<noteq> StTimeout"
  by (auto simp: traceRedirects_def Let_def success_def error_def split: sum.splits)

lemmas probe_status =
  checkPort_status grabBanner_status checkSSL_status simpleWhois_status resolveDNS_status
  checkBlacklist_status checkHeaders_status gradeSecurityHeaders_status traceRedirects_status

lemma run_body_status:
  "snd (run_body e apiType query options) = Some (Inr r) \<Longrightarrow> status r \<noteq> StTimeout"
  unfolding run_body_def
  by (auto split: if_splits sum.splits simp add: probe_status success_def)

lemma runTool_status:
  assumes "snd (runTool e apiType query options) = Some r"
  shows "status r \<noteq> StTimeout"
proof (cases "run_body e apiType query options")
  case (Pair ios res)
  show ?thesis
  proof (cases res)
    case None
    with Pair assms show ?thesis by (simp add: runTool_def)
  next
    case (Some v)
    show ?thesis
    proof (cases v)
      case (Inl ex)
      with Pair Some assms show ?thesis by (auto simp: runTool_def error_def)
    next
      case (Inr r')
      with Pair Some assms have "r' = r" by (simp add: runTool_def)
      with Pair Some Inr run_body_status [of e apiType query options r] show ?thesis by simp
    qed
  qed
qed

lemma run_body_tcp:
  "query \<noteq> [] \<Longrightarrow> apiType = ''ping'' \<or> apiType = ''tcp'' \<Longrightarrow>
   run_body e apiType query options = checkPort e (host_of query) (port_of e options query 80)"
  by (auto simp: run_body_def)

lemma run_body_banner:
  "query \<noteq> [] \<Longrightarrow>
   run_body e ''banner'' query options = grabBanner e (host_of query) (port_of e options query 22)"
  by (simp add: run_body_def)

lemma run_body_whois:
  "query \<noteq> [] \<Longrightarrow> run_body e ''whois'' query options = simpleWhois e query"
  by (simp add: run_body_def)

lemma runTool_of_probe:
  "run_body e apiType query options = (ios, map_option Inr x) \<Longrightarrow>
   runTool e apiType query options = (ios, x)"
  by (cases x) (simp_all add: runTool_def)

text \<open>
  C2, as the code has it. When the timer of the TCP/ping, banner or WHOIS probe fires,
  the result returned to the caller has status \<open>error\<close>, with the message
  \<open>Connection Timed Out\<close>, \<open>Timeout waiting for banner\<close> or \<open>Whois timeout\<close>; and
  no call of \<open>runTool\<close> ever returns a result with status \<open>timeout\<close>, so expiry
  differs from a network fault by the message only.
\<close>

theorem deadline_expiry_is_error:
  assumes "query \<noteq> []"
  shows "((apiType = ''ping'' \<or> apiType = ''tcp'') \<and> port_of e options query 80 = Some p
            \<and> legal_port (Some p) \<and> timed_out (checkPort_sock e (host_of query) p)
          \<longrightarrow> (\<exists>t. snd (runTool e apiType query options) =
                    Some \<lparr>status = StError, timestamp = t, data = None,
                          message = Some ''Connection Timed Out'', grade = None\<rparr>))
       \<and> (apiType = ''banner'' \<and> port_of e options query 22 = Some p
            \<and> legal_port (Some p) \<and> timed_out (grabBanner_sock e (host_of query) p)
          \<longrightarrow> (\<exists>t. snd (runTool e apiType query options) =
                    Some \<lparr>status = StError, timestamp = t, data = None,
                          message = Some ''Timeout waiting for banner'', grade = None\<rparr>))
       \<and> (apiType = ''whois'' \<and> timed_out (simpleWhois_sock e query)
          \<longrightarrow> (\<exists>t. snd (runTool e apiType query options) =
                    Some \<lparr>status = StError, timestamp = t, data = None,
                          message = Some ''Whois timeout'', grade = None\<rparr>))
       \<and> (\<forall>r. snd (runTool e apiType query options) = Some r \<longrightarrow> status r \<noteq> StTimeout)"
proof (intro conjI impI)
  assume a: "(apiType = ''ping'' \<or> apiType = ''tcp'') \<and> port_of e options query 80 = Some p
            \<and> legal_port (Some p) \<and> timed_out (checkPort_sock e (host_of query) p)"
  then obtain t where st:
    "settled (checkPort_sock e (host_of query) p) = Some (error t ''Connection Timed Out'')"
    using checkPort_timed_out by blast
  have rb: "run_body e apiType query options =
      ([TcpConnect (host_of query) p],
       map_option Inr (settled (checkPort_sock e (host_of query) p)))"
    using a assms by (simp add: run_body_tcp checkPort_def)
  have "snd (runTool e apiType query options) = settled (checkPort_sock e (host_of query) p)"
    using runTool_of_probe [OF rb] by simp
  with st have "snd (runTool e apiType query options) = Some (error t ''Connection Timed Out'')"
    by simp
  then show "\<exists>t. snd (runTool e apiType query options) =
                    Some \<lparr>status = StError, timestamp = t, data = None,
                          message = Some ''Connection Timed Out'', grade = None\<rparr>"
    by (auto simp: error_def)
next
  assume a: "apiType = ''banner'' \<and> port_of e options query 22 = Some p
            \<and> legal_port (Some p) \<and> timed_out (grabBanner_sock e (host_of query) p)"
  then obtain t where st:
    "settled (grabBanner_sock e (host_of query) p) = Some (error t ''Timeout waiting for banner'')"
    using grabBanner_timed_out by blast
  have rb: "run_body e apiType query options =
      ([TcpConnect (host_of query) p],
       map_option Inr (settled (grabBanner_sock e (host_of query) p)))"
    using a assms by (simp add: run_body_banner grabBanner_def)
  have "snd (runTool e apiType query options) = settled (grabBanner_sock e (host_of query) p)"
    using runTool_of_probe [OF rb] by simp
  with st have "snd (runTool e apiType query options) = Some (error t ''Timeout waiting for banner'')"
    by simp
  then show "\<exists>t. snd (runTool e apiType query options) =
                    Some \<lparr>status = StError, timestamp = t, data = None,
                          message = Some ''Timeout waiting for banner'', grade = None\<rparr>"
    by (auto simp: error_def)
next
  assume a: "apiType = ''whois'' \<and> timed_out (simpleWhois_sock e query)"
  then obtain t where st:
    "settled (simpleWhois_sock e query) = Some (error t ''Whois timeout'')"
    using simpleWhois_timed_out by blast
  have rb: "run_body e apiType query options =
      ([TcpConnect ''whois.iana.org'' 43], map_option Inr (settled (simpleWhois_sock e query)))"
    using a assms by (simp add: run_body_whois simpleWhois_def)
  have "snd (runTool e apiType query options) = settled (simpleWhois_sock e query)"
    using runTool_of_probe [OF rb] by simp
  with st have "snd (runTool e apiType query options) = Some (error t ''Whois timeout'')"
    by simp
  then show "\<exists>t. snd (runTool e apiType query options) =
                    Some \<lparr>status = StError, timestamp = t, data = None,
                          message = Some ''Whois timeout'', grade = None\<rparr>"
    by (auto simp: error_def)
next
  show "\<forall>r. snd (runTool e apiType query options) = Some r \<longrightarrow> status r \<noteq> StTimeout"
    using runTool_status by blast
qed

lemma quiet_sockets_time_out:
  "timed_out (checkPort_sock quiet_env ''example.org'' 80)"
  "timed_out (grabBanner_sock quiet_env ''example.org'' 22)"
  "timed_out (simpleWhois_sock quiet_env ''example.org'')"
  by (simp_all add: timed_out_def checkPort_sock_def grabBanner_sock_def simpleWhois_sock_def
        quiet_env_def new_sock_def deliver_def Let_def resolve_def destroy_def)

lemma quiet_ports:
  "host_of ''example.org'' = ''example.org''"
  "port_of quiet_env no_options ''example.org'' 80 = Some 80"
  "port_of quiet_env no_options ''example.org'' 22 = Some 22"
  "legal_port (Some 80)" "legal_port (Some 22)"
  by (simp_all add: host_of_def port_of_def no_options_def truthy_num_def startsWith_def
        legal_port_def)

theorem deadline_expiry_is_error_witness:
  "timed_out (checkPort_sock quiet_env (host_of ''example.org'') 80)
   \<and> timed_out (grabBanner_sock quiet_env (host_of ''example.org'') 22)
   \<and> timed_out (simpleWhois_sock quiet_env ''example.org'')
   \<and> map_option message (snd (runTool quiet_env ''tcp'' ''example.org'' no_options))
       = Some (Some ''Connection Timed Out'')
   \<and> map_option message (snd (runTool quiet_env ''banner'' ''example.org'' no_options))
       = Some (Some ''Timeout waiting for banner'')
   \<and> map_option message (snd (runTool quiet_env ''whois'' ''example.org'' no_options))
       = Some (Some ''Whois timeout'')
   \<and> map_option status (snd (runTool quiet_env ''tcp'' ''example.org'' no_options))
       = Some StError"
proof -
  have q: "''example.org'' \<noteq> []" by simp
  show ?thesis
    using deadline_expiry_is_error [OF q, of "''tcp''" quiet_env no_options 80]
      deadline_expiry_is_error [OF q, of "''banner''" quiet_env no_options 22]
      deadline_expiry_is_error [OF q, of "''whois''" quiet_env no_options 0]
      quiet_sockets_time_out quiet_ports
    by auto
qed

theorem timeout_status_counterexample:
  "timed_out (checkPort_sock quiet_env ''example.org'' 80)
   \<and> snd (runTool quiet_env ''tcp'' ''example.org'' no_options) =
       Some \<lparr>status = StError, timestamp = 1700000002000, data = None,
             message = Some ''Connection Timed Out'', grade = None\<rparr>
   \<and> map_option status (snd (runTool quiet_env ''tcp'' ''example.org'' no_options))
       \<noteq> Some StTimeout"
proof -
  have "snd (runTool quiet_env ''tcp'' ''example.org'' no_options) =
       Some \<lparr>status = StError, timestamp = 1700000002000, data = None,
             message = Some ''Connection Timed Out'', grade = None\<rparr>"
  proof -
    have "run_body quiet_env ''tcp'' ''example.org'' no_options =
            ([TcpConnect ''example.org'' 80],
             map_option Inr (settled (checkPort_sock quiet_env ''example.org'' 80)))"
      by (simp add: run_body_tcp checkPort_def quiet_ports)
    then have "runTool quiet_env ''tcp'' ''example.org'' no_options =
            ([TcpConnect ''example.org'' 80],
             settled (checkPort_sock quiet_env ''example.org'' 80))"
      by (rule runTool_of_probe)
    then show ?thesis
      by (simp add: checkPort_sock_def quiet_env_def new_sock_def deliver_def Let_def
            resolve_def destroy_def error_def)
  qed
  then show ?thesis
    using quiet_sockets_time_out(1) by simp
qed

section \<open>Banner probe\<close>

text \<open>
  C6, as the code has it. When the connection succeeds and no data arrives before the
  probe's timer fires (the peer is silent from then on, or its next event comes
  3000 ms or more after the connect), the result is an \<open>error\<close> with the message
  \<open>Timeout waiting for banner\<close>, on every port. The sentinel
  \<open>Connected (No Banner)\<close> is the \<open>success\<close> payload when the socket closes before
  the timer fires with nothing but white space received: the peer closes without
  sending, or sends a blank chunk.
\<close>

theorem grabBanner_without_banner:
  assumes "query \<noteq> []" and "port_of e options query 22 = Some p" and "legal_port (Some p)"
    and "d < 3000"
  shows "(tcp_peer e (host_of query) p = (d, PConnect) # rest
            \<and> (case rest of [] \<Rightarrow> True | (d', ev) # _ \<Rightarrow> 3000 \<le> d') \<longrightarrow>
            runTool e ''banner'' query options =
              ([TcpConnect (host_of query) p],
               Some \<lparr>status = StError, timestamp = now e + int d + 3000, data = None,
                     message = Some ''Timeout waiting for banner'', grade = None\<rparr>))
       \<and> (tcp_peer e (host_of query) p = (d, PConnect) # (d', PEnd) # rest \<and> d' < 3000 \<longrightarrow>
            runTool e ''banner'' query options =
              ([TcpConnect (host_of query) p],
               Some \<lparr>status = StSuccess, timestamp = now e + int d + int d',
                     data = Some (Banner (js_of ''Connected (No Banner)'')), message = None,
                     grade = None\<rparr>))
       \<and> (tcp_peer e (host_of query) p = (d, PConnect) # (d', PData x) # rest \<and> d' < 3000
            \<and> trim x = [] \<longrightarrow>
            runTool e ''banner'' query options =
              ([TcpConnect (host_of query) p],
               Some \<lparr>status = StSuccess, timestamp = now e + int d + int d',
                     data = Some (Banner (js_of ''Connected (No Banner)'')), message = None,
                     grade = None\<rparr>))"
proof -
  have rb: "run_body e ''banner'' query options =
          ([TcpConnect (host_of query) p],
           map_option Inr (settled (grabBanner_sock e (host_of query) p)))"
    using assms(1,2,3) by (simp add: run_body_banner grabBanner_def)
  have rt: "runTool e ''banner'' query options =
          ([TcpConnect (host_of query) p], settled (grabBanner_sock e (host_of query) p))"
    by (rule runTool_of_probe [OF rb])
  have silent: "settled (grabBanner_sock e (host_of query) p) =
      Some \<lparr>status = StError, timestamp = now e + int d + 3000, data = None,
            message = Some ''Timeout waiting for banner'', grade = None\<rparr>"
    if "tcp_peer e (host_of query) p = (d, PConnect) # rest"
      and "case rest of [] \<Rightarrow> True | (d', ev) # _ \<Rightarrow> 3000 \<le> d'"
  proof (cases rest)
    case Nil
    with that(1) assms(4) show ?thesis
      by (simp add: grabBanner_sock_def new_sock_def deliver_def Let_def resolve_def
            destroy_def error_def sock_write_def)
  next
    case (Cons y ys)
    obtain d2 ev2 where y: "y = (d2, ev2)" by (cases y)
    from that(2) Cons y have "3000 \<le> d2" by simp
    with that(1) Cons y assms(4) show ?thesis
      by (simp add: grabBanner_sock_def new_sock_def deliver_def Let_def resolve_def
            destroy_def error_def sock_write_def)
  qed
  have closed: "settled (grabBanner_sock e (host_of query) p) =
      Some \<lparr>status = StSuccess, timestamp = now e + int d + int d',
            data = Some (Banner (js_of ''Connected (No Banner)'')), message = None,
            grade = None\<rparr>"
    if "tcp_peer e (host_of query) p = (d, PConnect) # (d', PEnd) # rest" and "d' < 3000"
    using that assms(4)
    by (simp add: grabBanner_sock_def new_sock_def deliver_def Let_def resolve_def
          destroy_def success_def sock_write_def trim_def)
  have blank: "settled (grabBanner_sock e (host_of query) p) =
      Some \<lparr>status = StSuccess, timestamp = now e + int d + int d',
            data = Some (Banner (js_of ''Connected (No Banner)'')), message = None,
            grade = None\<rparr>"
    if "tcp_peer e (host_of query) p = (d, PConnect) # (d', PData x) # rest" and "d' < 3000"
      and "trim x = []"
    using that assms(4)
    by (simp add: grabBanner_sock_def new_sock_def deliver_def Let_def resolve_def
          destroy_def success_def sock_write_def)
  show ?thesis
    unfolding rt using silent closed blank by simp
qed

lemma banner_ports:
  "host_of ''example.org'' = ''example.org''"
  "port_of e no_options ''example.org'' 22 = Some 22"
  "port_of e (no_options\<lparr>port := Some 80\<rparr>) ''example.org'' 22 = Some 80"
  "legal_port (Some 80)" "legal_port (Some 22)"
  by (simp_all add: host_of_def port_of_def no_options_def truthy_num_def startsWith_def
        legal_port_def)

theorem grabBanner_without_banner_witness:
  "tcp_peer silent_service_env ''example.org'' 80 = [(10, PConnect)]
   \<and> runTool silent_service_env ''banner'' ''example.org'' (no_options\<lparr>port := Some 80\<rparr>) =
       ([TcpConnect ''example.org'' 80],
        Some \<lparr>status = StError, timestamp = 1700000003010, data = None,
              message = Some ''Timeout waiting for banner'', grade = None\<rparr>)
   \<and> tcp_peer late_banner_env ''example.org'' 22
       = [(10, PConnect), (3500, PData (js_of ''SSH-2.0-srv''))]
   \<and> runTool late_banner_env ''banner'' ''example.org'' no_options =
       ([TcpConnect ''example.org'' 22],
        Some \<lparr>status = StError, timestamp = 1700000003010, data = None,
              message = Some ''Timeout waiting for banner'', grade = None\<rparr>)
   \<and> tcp_peer closing_service_env ''example.org'' 22 = [(10, PConnect), (20, PEnd)]
   \<and> runTool closing_service_env ''banner'' ''example.org'' no_options =
       ([TcpConnect ''example.org'' 22],
        Some \<lparr>status = StSuccess, timestamp = 1700000000030,
              data = Some (Banner (js_of ''Connected (No Banner)'')), message = None,
              grade = None\<rparr>)"
proof -
  have h1: "''example.org'' \<noteq> []" by simp
  have h4: "(10::nat) < 3000" by simp
  have p1: "tcp_peer silent_service_env (host_of ''example.org'') 80 = (10, PConnect) # []"
    by (simp add: silent_service_env_def quiet_env_def)
  have p2: "tcp_peer late_banner_env (host_of ''example.org'') 22
              = (10, PConnect) # [(3500, PData (js_of ''SSH-2.0-srv''))]"
    by (simp add: late_banner_env_def quiet_env_def)
  have p3: "tcp_peer closing_service_env (host_of ''example.org'') 22
              = (10, PConnect) # (20, PEnd) # []"
    by (simp add: closing_service_env_def quiet_env_def)
  have n: "now silent_service_env = 1700000000000" "now late_banner_env = 1700000000000"
    "now closing_service_env = 1700000000000"
    by (simp_all add: silent_service_env_def late_banner_env_def closing_service_env_def
          quiet_env_def)
  show ?thesis
    using grabBanner_without_banner [OF h1 banner_ports(3) banner_ports(4) h4,
            of silent_service_env "[]" 0 "[]"]
      grabBanner_without_banner [OF h1 banner_ports(2) banner_ports(5) h4,
            of late_banner_env "[(3500, PData (js_of ''SSH-2.0-srv''))]" 0 "[]"]
      grabBanner_without_banner [OF h1 banner_ports(2) banner_ports(5) h4,
            of closing_service_env "[]" 20 "[]"]
      p1 p2 p3 n
    by (simp add: banner_ports(1))
qed

theorem grabBanner_silent_counterexample:
  "tcp_peer silent_service_env ''example.org'' 22 = [(10, PConnect)]
   \<and> map_option status (snd (runTool silent_service_env ''banner'' ''example.org'' no_options))
       = Some StError
   \<and> map_option message (snd (runTool silent_service_env ''banner'' ''example.org'' no_options))
       = Some (Some ''Timeout waiting for banner'')"
  by (simp add: runTool_def run_body_def grabBanner_def host_of_def port_of_def legal_port_def
        no_options_def truthy_num_def startsWith_def grabBanner_sock_def
        silent_service_env_def quiet_env_def new_sock_def deliver_def Let_def resolve_def
        destroy_def error_def)

section \<open>Blacklist probe\<close>

lemma split_str_no_sep: "sep \<notin> set s \<Longrightarrow> split_str sep s = [s]"
  by (induction s) auto

lemma split_str_at_sep:
  "sep \<notin> set a \<Longrightarrow> split_str sep (a @ sep # rest) = a # split_str sep rest"
  by (induction a) auto

lemma split_str_quad:
  assumes "CHR ''.'' \<notin> set a" "CHR ''.'' \<notin> set b" "CHR ''.'' \<notin> set c" "CHR ''.'' \<notin> set d"
  shows "split_str CHR ''.'' (a @ ''.'' @ b @ ''.'' @ c @ ''.'' @ d) = [a, b, c, d]"
  using assms by (simp add: split_str_at_sep split_str_no_sep)

lemma fill_length:
  "length (foldl (\<lambda>sl i. if i < n then sl[i := Some (xs ! i)] else sl) sl0 order) = length sl0"
  by (induction order arbitrary: sl0) auto

lemma fill_nth:
  "k < length sl0 \<Longrightarrow> length sl0 = n \<Longrightarrow>
   foldl (\<lambda>sl i. if i < n then sl[i := Some (xs ! i)] else sl) sl0 order ! k
     = (if k \<in> set order then Some (xs ! k) else sl0 ! k)"
proof (induction order arbitrary: sl0)
  case Nil
  then show ?case by simp
next
  case (Cons i order)
  show ?case
  proof (cases "i < n")
    case True
    with Cons.prems Cons.IH [of "sl0[i := Some (xs ! i)]"] show ?thesis
      by (auto simp: nth_list_update)
  next
    case False
    with Cons.prems Cons.IH [of sl0] show ?thesis by auto
  qed
qed

lemma Promise_all_complete:
  assumes "{0..<length xs} \<subseteq> set order"
  shows "Promise_all order xs = Some xs"
proof -
  let ?slots = "foldl (\<lambda>sl i. if i < length xs then sl[i := Some (xs ! i)] else sl)
                  (replicate (length xs) None) order"
  have len: "length ?slots = length xs"
    by (simp add: fill_length)
  have "?slots ! k = Some (xs ! k)" if "k < length xs" for k
    using fill_nth [of k "replicate (length xs) None" "length xs" xs order] that assms
    by auto
  then have "?slots = map Some xs"
    using len by (intro nth_equalityI) simp_all
  then show ?thesis
    by (auto simp add: Promise_all_def Let_def comp_def)
qed

text \<open>
  C8. For an address \<open>a.b.c.d\<close> the probe resolves \<open>d.c.b.a.zone\<close> for each of its
  two zones, as two lookups started in the order of the zone list, and, once both
  lookups have completed in whatever order, returns exactly one entry per zone in the
  order of the zone list: LISTED when that zone's resolution succeeds, CLEAN when it
  fails.
\<close>

theorem checkBlacklist_entries:
  assumes "CHR ''.'' \<notin> set a" "CHR ''.'' \<notin> set b" "CHR ''.'' \<notin> set c" "CHR ''.'' \<notin> set d"
    and "{0, 1} \<subseteq> set (dns_order e)"
    and "rv = d @ ''.'' @ c @ ''.'' @ b @ ''.'' @ a"
  shows "runTool e ''blacklist'' (a @ ''.'' @ b @ ''.'' @ c @ ''.'' @ d) options =
           ([DnsQuery A (rv @ ''.zen.spamhaus.org''),
             DnsQuery A (rv @ ''.b.barracudacentral.org'')],
            Some \<lparr>status = StSuccess, timestamp = now e,
                  data = Some (Blacklist
                    [(''zen.spamhaus.org'',
                        case dns_lookup e A (rv @ ''.zen.spamhaus.org'') of
                          Inr _ \<Rightarrow> ''LISTED'' | Inl _ \<Rightarrow> ''CLEAN''),
                     (''b.barracudacentral.org'',
                        case dns_lookup e A (rv @ ''.b.barracudacentral.org'') of
                          Inr _ \<Rightarrow> ''LISTED'' | Inl _ \<Rightarrow> ''CLEAN'')]),
                  message = None, grade = None\<rparr>)"
proof -
  let ?ip = "a @ ''.'' @ b @ ''.'' @ c @ ''.'' @ d"
  have rv: "join_str ''.'' (rev (split_str CHR ''.'' ?ip)) = rv"
    using split_str_quad [OF assms(1-4)] assms(6) by simp
  have "{0..<length (map (rbl_lookup e rv) rbls)} = {0, 1}"
    by (auto simp: rbls_def)
  then have "{0..<length (map (rbl_lookup e rv) rbls)} \<subseteq> set (dns_order e)"
    using assms(5) by simp
  then have pa: "Promise_all (dns_order e) (map (rbl_lookup e rv) rbls)
                   = Some (map (rbl_lookup e rv) rbls)"
    by (rule Promise_all_complete)
  have cb: "checkBlacklist e ?ip =
      (map (\<lambda>host. DnsQuery A (rv @ ''.'' @ host)) rbls,
       Some (Inr (success (now e) (Blacklist (map (rbl_lookup e rv) rbls)) None)))"
    unfolding checkBlacklist_def Let_def rv pa by simp
  have rb: "run_body e ''blacklist'' ?ip options = checkBlacklist e ?ip"
    by (simp add: run_body_def)
  have "runTool e ''blacklist'' ?ip options =
      (map (\<lambda>host. DnsQuery A (rv @ ''.'' @ host)) rbls,
       Some (success (now e) (Blacklist (map (rbl_lookup e rv) rbls)) None))"
    unfolding runTool_def rb cb by simp
  then show ?thesis
    by (simp add: rbls_def rbl_lookup_def success_def split: sum.splits)
qed

theorem checkBlacklist_entries_witness:
  "{0, 1} \<subseteq> set (dns_order listed_env)
   \<and> dns_order listed_env = [1, 0]
   \<and> runTool listed_env ''blacklist'' ''127.0.0.2'' no_options =
       ([DnsQuery A ''2.0.0.127.zen.spamhaus.org'',
         DnsQuery A ''2.0.0.127.b.barracudacentral.org''],
        Some \<lparr>status = StSuccess, timestamp = 1700000000000,
              data = Some (Blacklist [(''zen.spamhaus.org'', ''LISTED''),
                                      (''b.barracudacentral.org'', ''CLEAN'')]),
              message = None, grade = None\<rparr>)"
proof -
  have h1: "CHR ''.'' \<notin> set ''127''" and h2: "CHR ''.'' \<notin> set ''0''"
    and h4: "CHR ''.'' \<notin> set ''2''" by simp_all
  have h5: "{0, 1} \<subseteq> set (dns_order listed_env)"
    by (simp add: listed_env_def quiet_env_def)
  have h6: "''2.0.0.127'' = ''2'' @ ''.'' @ ''0'' @ ''.'' @ ''0'' @ ''.'' @ ''127''" by simp
  have l: "dns_lookup listed_env A ''2.0.0.127.zen.spamhaus.org'' = Inr [''127.0.0.2'']"
    "dns_lookup listed_env A ''2.0.0.127.b.barracudacentral.org'' = Inl ''ENOTFOUND''"
    "now listed_env = 1700000000000" "dns_order listed_env = [1, 0]"
    by (simp_all add: listed_env_def quiet_env_def)
  show ?thesis
    using checkBlacklist_entries [OF h1 h2 h2 h4 h5 h6, of no_options] l h5
    by simp
qed

end
